theory Spec2Isabelle
  imports Main
begin

section \<open>JavaScript values, objects and exceptions\<close>

text \<open>
  The values \<^verbatim>\<open>function.js\<close> handles. A plain object (the options mapping) is a
  reference into the heap, because \<^verbatim>\<open>toPayload\<close> writes into the object the caller
  passed. Arrays and big numbers are never written to by \<^verbatim>\<open>function.js\<close> and are
  kept as values. A function value is known by an identifier only: the caller's
  callback.
\<close>

type_synonym addr = nat
type_synonym cbid = nat

datatype jsval =
    JUndefined
  | JNull
  | JBool bool
  | JNum int
  | JStr string
  | JBigNumber int
  | JArray "jsval list"
  | JFunction cbid
  | JObject addr

type_synonym obj = "string \<rightharpoonup> jsval"

text \<open>Values the codec decodes from an output.\<close>

datatype dval =
    DStr string
  | DBool bool
  | DNum int
  | DArr "dval list"

text \<open>
  Exceptions: \<^verbatim>\<open>new Error(msg)\<close> and the engine's \<^verbatim>\<open>TypeError\<close>. The collaborators
  throw values of the same type. \<^verbatim>\<open>e.toString()\<close> is the name alone when the message
  is empty, and the name, a colon, a space and the message otherwise.
\<close>

datatype exn = Error string | TypeError string

fun exn_toString :: "exn \<Rightarrow> string" where
  "exn_toString (Error m) = (if m = [] then ''Error'' else ''Error: '' @ m)"
| "exn_toString (TypeError m) = (if m = [] then ''TypeError'' else ''TypeError: '' @ m)"

text \<open>Decimal rendering of an integer, and \<^verbatim>\<open>join(",")\<close>.\<close>

definition digit_char :: "nat \<Rightarrow> char" where
  "digit_char d = ''0123456789'' ! (d mod 10)"

function nat_toString :: "nat \<Rightarrow> string" where
  "nat_toString n =
     (if n < 10 then [digit_char n] else nat_toString (n div 10) @ [digit_char (n mod 10)])"
  by pat_completeness auto
termination
  by (relation "measure id") auto

fun join_strings :: "string list \<Rightarrow> string" where
  "join_strings [] = ''''"
| "join_strings [x] = x"
| "join_strings (x # y # ys) = x @ '','' @ join_strings (y # ys)"

subsection \<open>The type tests of \<^verbatim>\<open>utils\<close>\<close>

text \<open>
  Modelled from the spec: \<^verbatim>\<open>utils.isFunction\<close>, \<^verbatim>\<open>utils.isObject\<close>, \<^verbatim>\<open>utils.isArray\<close>
  and \<^verbatim>\<open>utils.isBigNumber\<close> are not among the source files. The spec calls the values
  they accept "callable", "a plain mapping (not an array, not a big-number value)",
  "array" and "big-number value".
\<close>

fun isFunction :: "jsval \<Rightarrow> bool" where
  "isFunction (JFunction c) = True"
| "isFunction v = False"

fun isObject :: "jsval \<Rightarrow> bool" where
  "isObject (JObject a) = True"
| "isObject v = False"

fun isArray :: "jsval \<Rightarrow> bool" where
  "isArray (JArray vs) = True"
| "isArray v = False"

fun isBigNumber :: "jsval \<Rightarrow> bool" where
  "isBigNumber (JBigNumber i) = True"
| "isBigNumber v = False"

section \<open>The binding and its collaborators\<close>

text \<open>The interface-description entry \<^verbatim>\<open>json\<close>: a field that may be absent is an option.\<close>

record abi_entry =
  json_name :: string
  json_inputs :: "string list"
  json_outputs :: "string list"
  json_stateMutability :: "string option"
  json_constant :: "bool option"
  json_payable :: "bool option"

text \<open>The fields of a \<^verbatim>\<open>SolidityFunction\<close> (\<^verbatim>\<open>this._dece\<close>, \<^verbatim>\<open>this._inputTypes\<close>, ...);
  \<open>this_dece\<close> names the transport handle.\<close>

record binding =
  this_dece :: nat
  this_inputTypes :: "string list"
  this_outputTypes :: "string list"
  this_constant :: bool
  this_payable :: bool
  this_name :: string
  this_address :: string
  this_abiv2 :: bool
  this_abi :: abi_entry

text \<open>The result of \<^verbatim>\<open>coder.opParams\<close>.\<close>

record conv_result =
  params :: "jsval list"
  shortAddr :: "string list"

type_synonym addr_map = "(string \<times> string) list"

text \<open>
  The collaborators \<^verbatim>\<open>function.js\<close> requires and does not define: \<^verbatim>\<open>utils\<close>,
  \<^verbatim>\<open>sha3\<close>, \<^verbatim>\<open>formatters\<close>, \<^verbatim>\<open>errors\<close>, \<^verbatim>\<open>coder\<close> and the transport \<^verbatim>\<open>dece\<close>.
  Each is a parameter. One that may throw returns \<open>Inl\<close> of the exception.
  \<^verbatim>\<open>coder.opParams\<close> is handed the transport handle: beside its result it gives
  the names of the transport operations it ran. A transport operation answers with
  an error or a result; with a callback, it passes the same answer to the callback,
  once, before it returns. The last two fields stand for the engine and for the
  numbers the codec decodes, not for a module (see \<open>gt_zero\<close> and \<open>dval_toString\<close>).
\<close>

record env =
  utils_transformToFullName :: "abi_entry \<Rightarrow> string"
  utils_base58ToBytes :: "string \<Rightarrow> exn + nat list"
  utils_bytesToHex :: "nat list \<Rightarrow> string"
  sha3 :: "string \<Rightarrow> string"
  formatters_inputDefaultBlockNumberFormatter :: "jsval \<Rightarrow> jsval"
  errors_InvalidNumberOfSolidityArgs :: exn
  errors_InvalidResponse :: "exn \<Rightarrow> exn"
  coder_opParams :: "string list \<Rightarrow> jsval list \<Rightarrow> string \<Rightarrow> jsval \<Rightarrow> string list \<times> (exn + conv_result)"
  coder_addressPrefix :: "string list \<Rightarrow> jsval list \<Rightarrow> string \<Rightarrow> exn + string"
  coder_encodeParams :: "string list \<Rightarrow> jsval list \<Rightarrow> string list \<Rightarrow> exn + string"
  coder_decodeShortAddress :: "string list \<Rightarrow> string \<Rightarrow> exn + string list"
  coder_decodeParams :: "string list \<Rightarrow> string \<Rightarrow> addr_map option \<Rightarrow> exn + dval list"
  coder_getSolidityTypes :: "string list \<Rightarrow> exn + string list option"
  dece_call :: "obj \<Rightarrow> jsval \<Rightarrow> exn + string option"
  dece_sendTransaction :: "obj \<Rightarrow> exn + jsval"
  dece_estimateGas :: "obj \<Rightarrow> exn + jsval"
  dece_getFullAddress :: "string list \<Rightarrow> exn + addr_map"
  engine_gt_zero :: "jsval \<Rightarrow> bool"
  number_toString :: "int \<Rightarrow> string"

text \<open>
  \<^verbatim>\<open>v > 0\<close>: the comparison turns \<open>v\<close> into a number first. \<^verbatim>\<open>undefined\<close> gives
  NaN, which compares false, and \<^verbatim>\<open>null\<close> gives 0. What the engine makes of a
  string, an array, a function or an object is the parameter \<open>engine_gt_zero\<close>.
\<close>

fun gt_zero :: "env \<Rightarrow> jsval \<Rightarrow> bool" where
  "gt_zero E (JNum i) = (0 < i)"
| "gt_zero E (JBigNumber i) = (0 < i)"
| "gt_zero E (JBool b) = b"
| "gt_zero E JUndefined = False"
| "gt_zero E JNull = False"
| "gt_zero E v = engine_gt_zero E v"

text \<open>
  \<^verbatim>\<open>"" + v\<close> for a decoded value: a string is itself and an array renders as its
  elements joined by commas. How a decoded number renders depends on what the codec
  returns for it (a number or a big number, both in exponent form when large): it
  is the parameter \<open>number_toString\<close>.
\<close>

fun dval_toString :: "env \<Rightarrow> dval \<Rightarrow> string" where
  "dval_toString E (DStr s) = s"
| "dval_toString E (DBool b) = (if b then ''true'' else ''false'')"
| "dval_toString E (DNum i) = number_toString E i"
| "dval_toString E (DArr vs) = join_strings (map (dval_toString E) vs)"

definition result_toString :: "env \<Rightarrow> dval list \<Rightarrow> string" where
  "result_toString E result = join_strings (map (dval_toString E) result)"

section \<open>State: the binding, the heap and what was observed\<close>

text \<open>An argument of a callback invocation.\<close>

datatype cbarg = CNull | CErr exn | CDecoded dval | CJs jsval

text \<open>
  What an invocation does to the outside: operations on the transport handle
  (by \<^verbatim>\<open>function.js\<close> itself, or by the codec inside \<^verbatim>\<open>opParams\<close>) and invocations
  of the caller's callback.
\<close>

datatype event =
    DeceCall addr jsval
  | DeceSendTransaction addr
  | DeceEstimateGas addr
  | DeceGetFullAddress "string list"
  | CodecDece string
  | Invoked cbid "cbarg list"

record js_state =
  self :: binding
  heap :: "addr \<Rightarrow> obj"
  nextAddr :: addr
  trace :: "event list"

definition emit :: "event list \<Rightarrow> js_state \<Rightarrow> js_state" where
  "emit es s = s\<lparr>trace := trace s @ es\<rparr>"

text \<open>\<^verbatim>\<open>{}\<close>: a new object at the next free address.\<close>

definition new_object :: "js_state \<Rightarrow> addr \<times> js_state" where
  "new_object s =
     (nextAddr s, s\<lparr>heap := (heap s)(nextAddr s := Map.empty), nextAddr := Suc (nextAddr s)\<rparr>)"

text \<open>\<^verbatim>\<open>o.k = v\<close>, \<^verbatim>\<open>o.k\<close> and \<^verbatim>\<open>o.hasOwnProperty(k)\<close> on an object reference.\<close>

definition set_prop :: "addr \<Rightarrow> string \<Rightarrow> jsval \<Rightarrow> js_state \<Rightarrow> js_state" where
  "set_prop a k v s = s\<lparr>heap := (heap s)(a := (heap s a)(k \<mapsto> v))\<rparr>"

definition get_prop :: "js_state \<Rightarrow> addr \<Rightarrow> string \<Rightarrow> jsval" where
  "get_prop s a k = (case heap s a k of None \<Rightarrow> JUndefined | Some v \<Rightarrow> v)"

definition hasOwnProperty :: "js_state \<Rightarrow> addr \<Rightarrow> string \<Rightarrow> bool" where
  "hasOwnProperty s a k = (heap s a k \<noteq> None)"

text \<open>What a method returns.\<close>

datatype retval =
    Undefined
  | Decoded dval
  | Raw jsval
  | Descriptor string "cbid option" "addr list"

section \<open>The methods of \<^verbatim>\<open>SolidityFunction\<close>\<close>

subsection \<open>Construction\<close>

definition SolidityFunction :: "env \<Rightarrow> nat \<Rightarrow> abi_entry \<Rightarrow> string \<Rightarrow> bool \<Rightarrow> binding" where
  "SolidityFunction E d json addr v2 =
     (let c0 = (if json_stateMutability json \<noteq> Some ''nonpayable''
                   \<and> json_stateMutability json \<noteq> Some ''payable'' then True else False);
          p0 = (if json_stateMutability json = Some ''payable'' then True else False);
          c1 = (case json_constant json of Some c \<Rightarrow> c | None \<Rightarrow> c0);
          p1 = (case json_payable json of Some p \<Rightarrow> p | None \<Rightarrow> p0)
      in \<lparr>this_dece = d, this_inputTypes = json_inputs json,
          this_outputTypes = json_outputs json, this_constant = c1, this_payable = p1,
          this_name = utils_transformToFullName E json, this_address = addr,
          this_abiv2 = v2, this_abi = json\<rparr>)"

subsection \<open>Taking the callback and the block tag off the argument list\<close>

text \<open>\<^verbatim>\<open>args[args.length - 1]\<close>: \<^verbatim>\<open>undefined\<close> on an empty array.\<close>

definition last_arg :: "jsval list \<Rightarrow> jsval" where
  "last_arg args = (if args = [] then JUndefined else last args)"

text \<open>The callback taken off the list is kept by its identifier.\<close>

fun function_id :: "jsval \<Rightarrow> cbid option" where
  "function_id (JFunction c) = Some c"
| "function_id v = None"

definition extractCallback :: "jsval list \<Rightarrow> cbid option \<times> jsval list" where
  "extractCallback args =
     (if isFunction (last_arg args)
      then (function_id (last_arg args), butlast args)
      else (None, args))"

definition extractDefaultBlock :: "env \<Rightarrow> binding \<Rightarrow> jsval list \<Rightarrow> jsval \<times> jsval list" where
  "extractDefaultBlock E b args =
     (if length args > length (this_inputTypes b) \<and> \<not> isObject (last_arg args)
      then (formatters_inputDefaultBlockNumberFormatter E (last_arg args), butlast args)
      else (JUndefined, args))"

subsection \<open>validateArgs\<close>

definition validateArgs :: "env \<Rightarrow> binding \<Rightarrow> jsval list \<Rightarrow> exn + unit" where
  "validateArgs E b args =
     (let inputArgs = filter (\<lambda>a. \<not> (isObject a = True \<and> isArray a = False \<and> isBigNumber a = False)) args
      in if length inputArgs \<noteq> length (this_inputTypes b)
         then Inl (errors_InvalidNumberOfSolidityArgs E)
         else Inr ())"

subsection \<open>Building the payload\<close>

definition signature :: "env \<Rightarrow> binding \<Rightarrow> string" where
  "signature E b = take 8 (sha3 E (this_name b))"

text \<open>
  \<^verbatim>\<open>var options = {}; if (args.length > this._inputTypes.length &&
  utils.isObject(args[args.length - 1])) { options = args[args.length - 1]; }\<close>:
  \<open>fresh\<close> is the address of the new object.
\<close>

definition select_options :: "binding \<Rightarrow> jsval list \<Rightarrow> addr \<Rightarrow> addr" where
  "select_options b args fresh =
     (if length args > length (this_inputTypes b) \<and> isObject (last_arg args)
      then (case last_arg args of JObject a \<Rightarrow> a | _ \<Rightarrow> fresh)
      else fresh)"

text \<open>
  \<^verbatim>\<open>coder.addressPrefix(types, args, rand) + this.signature() +
  coder.encodeParams(types, args, shortAddr)\<close>, evaluated from left to right.
\<close>

definition payload_data :: "env \<Rightarrow> binding \<Rightarrow> string \<Rightarrow> conv_result \<Rightarrow> exn + string" where
  "payload_data E b rand r =
     (case coder_addressPrefix E (this_inputTypes b) (params r) rand of
        Inl e \<Rightarrow> Inl e
      | Inr prefix \<Rightarrow>
          (case coder_encodeParams E (this_inputTypes b) (params r) (shortAddr r) of
             Inl e \<Rightarrow> Inl e
           | Inr enc \<Rightarrow> Inr (prefix @ signature E b @ enc)))"

definition toPayload :: "env \<Rightarrow> jsval list \<Rightarrow> js_state \<Rightarrow> js_state \<times> (exn + addr)" where
  "toPayload E args s =
     (let (fresh, s1) = new_object s;
          b = self s1;
          options = select_options b args fresh
      in case validateArgs E b args of
           Inl e \<Rightarrow> (s1, Inl e)
         | Inr u \<Rightarrow>
             (let s2 = set_prop options ''to'' (JStr (this_address b)) s1;
                  dy = (if hasOwnProperty s2 options ''dy'' then get_prop s2 options ''dy''
                        else JBool False)
              in case utils_base58ToBytes E (this_address b) of
                   Inl e \<Rightarrow> (s2, Inl e)
                 | Inr bytes \<Rightarrow>
                     (let rand = utils_bytesToHex E (take 16 bytes);
                          (ops, convertResult) = coder_opParams E (this_inputTypes b) args rand dy;
                          s3 = emit (map CodecDece ops) s2
                      in case convertResult of
                           Inl e \<Rightarrow> (s3, Inl e)
                         | Inr r \<Rightarrow>
                             (case payload_data E b rand r of
                                Inl e \<Rightarrow> (s3, Inl e)
                              | Inr d \<Rightarrow> (set_prop options ''data'' (JStr d) s3, Inr options)))))"

text \<open>
  The callback form: \<open>callback\<close> is the continuation that receives the options
  object. The codec passes \<open>(err, result)\<close> to \<^verbatim>\<open>cb\<close>; an exception of \<^verbatim>\<open>cb\<close> or of
  the continuation leaves through the codec.
\<close>

definition toPayloadCall ::
  "env \<Rightarrow> jsval list \<Rightarrow> (addr \<Rightarrow> js_state \<Rightarrow> js_state \<times> (exn + unit)) \<Rightarrow> js_state
     \<Rightarrow> js_state \<times> (exn + unit)" where
  "toPayloadCall E args callback s =
     (let (fresh, s1) = new_object s;
          b = self s1;
          options = select_options b args fresh
      in case validateArgs E b args of
           Inl e \<Rightarrow> (s1, Inl e)
         | Inr u \<Rightarrow>
             (let s2 = set_prop options ''to'' (JStr (this_address b)) s1;
                  dy = (if hasOwnProperty s2 options ''dy'' then get_prop s2 options ''dy''
                        else JBool False)
              in case utils_base58ToBytes E (this_address b) of
                   Inl e \<Rightarrow> (s2, Inl e)
                 | Inr bytes \<Rightarrow>
                     (let rand = utils_bytesToHex E (take 16 bytes);
                          (ops, convertResult) = coder_opParams E (this_inputTypes b) args rand dy;
                          s3 = emit (map CodecDece ops) s2
                      in case convertResult of
                           Inl err \<Rightarrow> (s3, Inl (errors_InvalidResponse E err))
                         | Inr r \<Rightarrow>
                             (case payload_data E b rand r of
                                Inl e \<Rightarrow> (s3, Inl e)
                              | Inr d \<Rightarrow> callback options (set_prop options ''data'' (JStr d) s3)))))"

subsection \<open>Decoding the output\<close>

text \<open>
  \<^verbatim>\<open>callback(...)\<close>: calling \<^verbatim>\<open>undefined\<close> is a TypeError. The caller's callback is
  recorded and returns.
\<close>

definition invoke_callback :: "cbid option \<Rightarrow> cbarg list \<Rightarrow> js_state \<Rightarrow> js_state \<times> (exn + unit)" where
  "invoke_callback callback as s =
     (case callback of
        None \<Rightarrow> (s, Inl (TypeError ''callback is not a function''))
      | Some c \<Rightarrow> (emit [Invoked c as] s, Inr ()))"

text \<open>\<^verbatim>\<open>output.length >= 8 && output.slice(0, 8) == "08c379a0"\<close>\<close>

definition is_revert :: "string \<Rightarrow> bool" where
  "is_revert output = (length output \<ge> 8 \<and> take 8 output = ''08c379a0'')"

text \<open>
  \<^verbatim>\<open>var result = coder.decodeParams(["string"], output.slice(8), null);
  throw new Error(prefix + result + "\noutput = " + output)\<close>: the exception that
  leaves the block, which is the codec's own when the decoding throws.
\<close>

definition throw_reason :: "env \<Rightarrow> string \<Rightarrow> string \<Rightarrow> exn" where
  "throw_reason E prefix output =
     (case coder_decodeParams E [''string''] (drop 8 output) None of
        Inl e \<Rightarrow> e
      | Inr result \<Rightarrow>
          Error (prefix @ result_toString E result @ [CHR 0x0A] @ ''output = '' @ output))"

text \<open>\<^verbatim>\<open>new Error("unpackOutput error = " + e.toString() + "\noutput = " + output)\<close>\<close>

definition decode_error :: "exn \<Rightarrow> string \<Rightarrow> exn" where
  "decode_error e output =
     Error (''unpackOutput error = '' @ exn_toString e @ [CHR 0x0A] @ ''output = '' @ output)"

text \<open>\<^verbatim>\<open>result.length === 1 ? result[0] : result\<close>\<close>

definition single_or_all :: "dval list \<Rightarrow> dval" where
  "single_or_all result = (if length result = 1 then result ! 0 else DArr result)"

text \<open>
  The \<^verbatim>\<open>try\<close> block of the branch without a callback: resolve the short addresses
  through the transport, decode, return; any exception of the two is replaced.
\<close>

definition unpack_sync :: "env \<Rightarrow> string \<Rightarrow> string list \<Rightarrow> js_state \<Rightarrow> js_state \<times> (exn + retval)" where
  "unpack_sync E output shortAddress s =
     (let s1 = emit [DeceGetFullAddress shortAddress] s;
          decoded = (case dece_getFullAddress E shortAddress of
                       Inl e \<Rightarrow> Inl e
                     | Inr addrMap \<Rightarrow>
                         coder_decodeParams E (this_outputTypes (self s)) output (Some addrMap))
      in case decoded of
           Inr result \<Rightarrow> (s1, Inr (Decoded (single_or_all result)))
         | Inl e \<Rightarrow>
             if is_revert output then (s1, Inl (throw_reason E ''required,reason = '' output))
             else (s1, Inl (decode_error e output)))"

text \<open>
  The last statement of \<^verbatim>\<open>unpackOutput\<close>, which hands the result to \<^verbatim>\<open>callback\<close>.
  With short addresses the transport resolves them and passes \<open>(err, mapAddr)\<close> to
  \<^verbatim>\<open>cb\<close>, which throws \<open>err\<close>.
\<close>

definition unpack_deliver ::
  "env \<Rightarrow> string \<Rightarrow> string list \<Rightarrow> cbid option \<Rightarrow> js_state \<Rightarrow> js_state \<times> (exn + retval)" where
  "unpack_deliver E output shortAddress callback s =
     (if length shortAddress > 0 then
        (let s1 = emit [DeceGetFullAddress shortAddress] s
         in case dece_getFullAddress E shortAddress of
              Inl err \<Rightarrow> (s1, Inl err)
            | Inr mapAddr \<Rightarrow>
                (case coder_decodeParams E (this_outputTypes (self s)) output (Some mapAddr) of
                   Inl e \<Rightarrow> (s1, Inl e)
                 | Inr result \<Rightarrow>
                     (case invoke_callback callback [CNull, CDecoded (single_or_all result)] s1 of
                        (s2, Inl e) \<Rightarrow> (s2, Inl e)
                      | (s2, Inr u) \<Rightarrow> (s2, Inr Undefined))))
      else
        (case coder_decodeParams E (this_outputTypes (self s)) output None of
           Inl e \<Rightarrow> (s, Inl e)
         | Inr result \<Rightarrow>
             (case invoke_callback callback [CNull, CDecoded (single_or_all result)] s of
                (s2, Inl e) \<Rightarrow> (s2, Inl e)
              | (s2, Inr u) \<Rightarrow> (s2, Inr Undefined))))"

text \<open>
  The transport's output is a string, or \<open>None\<close> for \<^verbatim>\<open>null\<close> and \<^verbatim>\<open>undefined\<close>;
  \<^verbatim>\<open>!output\<close> holds of \<open>None\<close> and of the empty string.
\<close>

definition falsy :: "string option \<Rightarrow> bool" where
  "falsy output = (case output of None \<Rightarrow> True | Some str \<Rightarrow> str = [])"

definition unpackOutput ::
  "env \<Rightarrow> string option \<Rightarrow> cbid option \<Rightarrow> js_state \<Rightarrow> js_state \<times> (exn + retval)" where
  "unpackOutput E output0 callback s =
     (if falsy output0 then (s, Inr Undefined)
      else
        (let raw = (case output0 of None \<Rightarrow> [] | Some str \<Rightarrow> str);
             output = (if length raw \<ge> 2 then drop 2 raw else raw)
         in case coder_decodeShortAddress E (this_outputTypes (self s)) output of
              Inl e \<Rightarrow>
                if is_revert output
                then (s, Inl (throw_reason E ''output invalid, reason = '' output))
                else (s, Inl (decode_error e output))
            | Inr shortAddress \<Rightarrow>
                if callback = None then
                  (case coder_getSolidityTypes E (this_outputTypes (self s)) of
                     Inl e \<Rightarrow> (s, Inl e)
                   | Inr tys \<Rightarrow>
                       if (case tys of None \<Rightarrow> False | Some ts \<Rightarrow> length ts > 0)
                       then unpack_sync E output shortAddress s
                       else if is_revert output
                       then (s, Inl (throw_reason E ''required,reason = '' output))
                       else unpack_deliver E output shortAddress callback s)
                else unpack_deliver E output shortAddress callback s))"

subsection \<open>The call-style operations\<close>

text \<open>
  How the transport answers a callback of its own: \<open>(err)\<close> or \<open>(null, result)\<close>.
\<close>

definition transport_reply :: "exn + jsval \<Rightarrow> cbarg list" where
  "transport_reply r = (case r of Inl e \<Rightarrow> [CErr e] | Inr v \<Rightarrow> [CNull, CJs v])"

text \<open>
  \<^verbatim>\<open>call\<close>. In the callback form the function passed to the transport returns
  \<^verbatim>\<open>callback(error, null)\<close> on an error; otherwise it runs \<^verbatim>\<open>unpackOutput\<close> inside
  \<^verbatim>\<open>try\<close>, and its \<^verbatim>\<open>catch (e) { error = e; }\<close> is the last thing it does.
\<close>

definition call :: "env \<Rightarrow> jsval list \<Rightarrow> js_state \<Rightarrow> js_state \<times> (exn + retval)" where
  "call E arguments s =
     (let args = filter (\<lambda>a. a \<noteq> JUndefined) arguments;
          (callback, args1) = extractCallback args;
          (defaultBlock, args2) = extractDefaultBlock E (self s) args1
      in if callback = None then
           (case toPayload E args2 s of
              (s1, Inl e) \<Rightarrow> (s1, Inl e)
            | (s1, Inr payload) \<Rightarrow>
                (let s2 = emit [DeceCall payload defaultBlock] s1
                 in case dece_call E (heap s2 payload) defaultBlock of
                      Inl e \<Rightarrow> (s2, Inl e)
                    | Inr output \<Rightarrow> unpackOutput E output None s2))
         else
           (case toPayloadCall E args2
                   (\<lambda>payload s1.
                      let s2 = emit [DeceCall payload defaultBlock] s1
                      in case dece_call E (heap s2 payload) defaultBlock of
                           Inl error \<Rightarrow> invoke_callback callback [CErr error, CNull] s2
                         | Inr output \<Rightarrow>
                             (case unpackOutput E output callback s2 of
                                (s3, Inl e) \<Rightarrow> (s3, Inr ())
                              | (s3, Inr v) \<Rightarrow> (s3, Inr ())))
                   s of
              (s', Inl e) \<Rightarrow> (s', Inl e)
            | (s', Inr u) \<Rightarrow> (s', Inr Undefined)))"

definition sendTransaction :: "env \<Rightarrow> jsval list \<Rightarrow> js_state \<Rightarrow> js_state \<times> (exn + retval)" where
  "sendTransaction E arguments s =
     (let args = filter (\<lambda>a. a \<noteq> JUndefined) arguments;
          (callback, args1) = extractCallback args;
          (fresh, s0) = new_object s;
          options = select_options (self s0) args1 fresh
      in if gt_zero E (get_prop s0 options ''value'') \<and> \<not> this_payable (self s0)
         then (s0, Inl (Error ''Cannot send value to non-payable function''))
         else if callback = None then
           (case toPayload E args1 s0 of
              (s1, Inl e) \<Rightarrow> (s1, Inl e)
            | (s1, Inr payload) \<Rightarrow>
                (let s2 = emit [DeceSendTransaction payload] s1
                 in case dece_sendTransaction E (heap s2 payload) of
                      Inl e \<Rightarrow> (s2, Inl e)
                    | Inr v \<Rightarrow> (s2, Inr (Raw v))))
         else
           (case toPayloadCall E args1
                   (\<lambda>payload s1.
                      let s2 = emit [DeceSendTransaction payload] s1
                      in invoke_callback callback
                           (transport_reply (dece_sendTransaction E (heap s2 payload))) s2)
                   s0 of
              (s', Inl e) \<Rightarrow> (s', Inl e)
            | (s', Inr u) \<Rightarrow> (s', Inr Undefined)))"

definition estimateGas :: "env \<Rightarrow> jsval list \<Rightarrow> js_state \<Rightarrow> js_state \<times> (exn + retval)" where
  "estimateGas E arguments s =
     (let (callback, args) = extractCallback arguments
      in if callback = None then
           (case toPayload E args s of
              (s1, Inl e) \<Rightarrow> (s1, Inl e)
            | (s1, Inr payload) \<Rightarrow>
                (let s2 = emit [DeceEstimateGas payload] s1
                 in case dece_estimateGas E (heap s2 payload) of
                      Inl e \<Rightarrow> (s2, Inl e)
                    | Inr v \<Rightarrow> (s2, Inr (Raw v))))
         else
           (case toPayloadCall E args
                   (\<lambda>payload s1.
                      let s2 = emit [DeceEstimateGas payload] s1
                      in invoke_callback callback
                           (transport_reply (dece_estimateGas E (heap s2 payload))) s2)
                   s of
              (s', Inl e) \<Rightarrow> (s', Inl e)
            | (s', Inr u) \<Rightarrow> (s', Inr Undefined)))"

definition getData :: "env \<Rightarrow> jsval list \<Rightarrow> js_state \<Rightarrow> js_state \<times> (exn + retval)" where
  "getData E arguments s =
     (let (callback, args) = extractCallback arguments
      in if callback = None then
           (case toPayload E args s of
              (s1, Inl e) \<Rightarrow> (s1, Inl e)
            | (s1, Inr payload) \<Rightarrow> (s1, Inr (Raw (get_prop s1 payload ''data''))))
         else
           (case toPayloadCall E args
                   (\<lambda>result s1. invoke_callback callback [CJs (get_prop s1 result ''data'')] s1)
                   s of
              (s', Inl e) \<Rightarrow> (s', Inl e)
            | (s', Inr u) \<Rightarrow> (s', Inr Undefined)))"

text \<open>
  \<^verbatim>\<open>request\<close>: the descriptor holds the method name, the callback and the payload;
  its \<^verbatim>\<open>format\<close> field is \<^verbatim>\<open>unpackOutput\<close> of this binding.
\<close>

definition request :: "env \<Rightarrow> jsval list \<Rightarrow> js_state \<Rightarrow> js_state \<times> (exn + retval)" where
  "request E arguments s =
     (let (callback, args) = extractCallback arguments
      in case toPayload E args s of
           (s1, Inl e) \<Rightarrow> (s1, Inl e)
         | (s1, Inr payload) \<Rightarrow>
             (s1, Inr (Descriptor
                         (if this_constant (self s1) then ''dece_call'' else ''dece_sendTransaction'')
                         callback [payload])))"

definition execute :: "env \<Rightarrow> jsval list \<Rightarrow> js_state \<Rightarrow> js_state \<times> (exn + retval)" where
  "execute E arguments s =
     (let transaction = \<not> this_constant (self s)
      in if transaction then sendTransaction E arguments s else call E arguments s)"

text \<open>
  The entry points \<^verbatim>\<open>attachToContract\<close> binds for a contract: \<^verbatim>\<open>execute\<close> and its
  properties \<^verbatim>\<open>request\<close>, \<^verbatim>\<open>call\<close>, \<^verbatim>\<open>sendTransaction\<close>, \<^verbatim>\<open>estimateGas\<close>, \<^verbatim>\<open>getData\<close>.
\<close>

datatype operation = Execute | Request | Call | SendTransaction | EstimateGas | GetData

fun run :: "env \<Rightarrow> operation \<Rightarrow> jsval list \<Rightarrow> js_state \<Rightarrow> js_state \<times> (exn + retval)" where
  "run E Execute arguments s = execute E arguments s"
| "run E Request arguments s = request E arguments s"
| "run E Call arguments s = call E arguments s"
| "run E SendTransaction arguments s = sendTransaction E arguments s"
| "run E EstimateGas arguments s = estimateGas E arguments s"
| "run E GetData arguments s = getData E arguments s"

section \<open>What an invocation may change, and what it lets the outside see\<close>

text \<open>
  \<open>frame args s s'\<close>: from \<open>s\<close> to \<open>s'\<close> the binding is the same, objects are only
  added, and an object that existed in \<open>s\<close> and is not among \<open>args\<close> has its
  fields unchanged.
\<close>

definition frame :: "jsval list \<Rightarrow> js_state \<Rightarrow> js_state \<Rightarrow> bool" where
  "frame args s s' \<longleftrightarrow>
     self s' = self s \<and> nextAddr s \<le> nextAddr s' \<and>
     (\<forall>a. a < nextAddr s \<and> JObject a \<notin> set args \<longrightarrow> heap s' a = heap s a)"

text \<open>The operations \<^verbatim>\<open>function.js\<close> itself invokes on \<^verbatim>\<open>this._dece\<close>.\<close>

fun direct_transport :: "event \<Rightarrow> bool" where
  "direct_transport (DeceCall p blk) = True"
| "direct_transport (DeceSendTransaction p) = True"
| "direct_transport (DeceEstimateGas p) = True"
| "direct_transport (DeceGetFullAddress sa) = True"
| "direct_transport (CodecDece opn) = False"
| "direct_transport (Invoked c as) = False"

fun is_invocation :: "event \<Rightarrow> bool" where
  "is_invocation (Invoked c as) = True"
| "is_invocation e = False"

section \<open>A transport and a codec to run the methods on\<close>

text \<open>
  The output of a reverted call: the selector \<^verbatim>\<open>08c379a0\<close> and the encoding of the
  string "execution failed".
\<close>

definition revert_output :: string where
  "revert_output =
     ''0x08c379a0'' @
     ''0000000000000000000000000000000000000000000000000000000000000020'' @
     ''0000000000000000000000000000000000000000000000000000000000000010'' @
     ''657865637574696f6e206661696c656400000000000000000000000000000000''"

text \<open>
  A stand-in for the collaborators, for running the methods on concrete inputs:
  the transport answers every \<^verbatim>\<open>call\<close> with \<open>response\<close>; the codec leaves the
  arguments as they are, refuses an output that is not a whole number of 32-byte
  words, reads the reason of \<open>revert_output\<close>, and decodes every other declared
  type to the text of the output; the engine reads a string of decimal digits as
  a number.
\<close>

definition is_digit :: "char \<Rightarrow> bool" where
  "is_digit c = (c \<in> set ''0123456789'')"

text \<open>
  A big number as the example renders it: plain decimal below ten to the 21st, and from there
  on the first digit, the other digits without their trailing zeros after a point,
  and the exponent.
\<close>

definition exponent_form :: "nat \<Rightarrow> string" where
  "exponent_form n =
     (case nat_toString n of
        [] \<Rightarrow> []
      | d # ds \<Rightarrow>
          (let frac = rev (dropWhile (\<lambda>c. c = CHR ''0'') (rev ds))
           in [d] @ (if frac = [] then [] else ''.'' @ frac) @ ''e+'' @ nat_toString (length ds)))"

definition bignumber_toString :: "int \<Rightarrow> string" where
  "bignumber_toString i =
     (let n = nat \<bar>i\<bar>;
          body = (if n < 10 ^ 21 then nat_toString n else exponent_form n)
      in if i < 0 then ''-'' @ body else body)"

definition hex_char :: "nat \<Rightarrow> char" where
  "hex_char d = ''0123456789abcdef'' ! (d mod 16)"

definition example_env :: "string option \<Rightarrow> env" where
  "example_env response =
     \<lparr>utils_transformToFullName =
        (\<lambda>j. json_name j @ ''('' @ join_strings (json_inputs j) @ '')''),
      utils_base58ToBytes = (\<lambda>a. Inr (map of_char a)),
      utils_bytesToHex = (\<lambda>bs. concat (map (\<lambda>b. [hex_char (b div 16), hex_char b]) bs)),
      sha3 = (\<lambda>n. ''a9059cbb2ab09eb219583f4a59a5d0623ade346d962bcd4e46b11da047c9049b''),
      formatters_inputDefaultBlockNumberFormatter = (\<lambda>v. v),
      errors_InvalidNumberOfSolidityArgs =
        Error ''Invalid number of arguments to Solidity function'',
      errors_InvalidResponse = (\<lambda>e. Error (''Invalid JSON RPC response: '' @ exn_toString e)),
      coder_opParams = (\<lambda>tys args rand dy. ([], Inr \<lparr>params = args, shortAddr = []\<rparr>)),
      coder_addressPrefix = (\<lambda>tys args rand. Inr rand),
      coder_encodeParams = (\<lambda>tys args sa. Inr []),
      coder_decodeShortAddress =
        (\<lambda>tys out. if length out mod 64 \<noteq> 0 then Inl (Error ''invalid output'') else Inr []),
      coder_decodeParams =
        (\<lambda>tys out m. if tys = [''string''] \<and> out = drop 10 revert_output
                     then Inr [DStr ''execution failed'']
                     else Inr (map (\<lambda>ty. DStr out) tys)),
      coder_getSolidityTypes = (\<lambda>tys. Inr (Some tys)),
      dece_call = (\<lambda>p blk. Inr response),
      dece_sendTransaction = (\<lambda>p. Inr (JStr ''0x01'')),
      dece_estimateGas = (\<lambda>p. Inr (JNum 21000)),
      dece_getFullAddress = (\<lambda>sa. Inr []),
      engine_gt_zero =
        (\<lambda>v. case v of
               JStr str \<Rightarrow> str \<noteq> [] \<and> list_all is_digit str \<and> list_ex (\<lambda>c. c \<noteq> CHR ''0'') str
             | _ \<Rightarrow> False),
      number_toString = bignumber_toString\<rparr>"

text \<open>
  Modelled from the spec: \<^verbatim>\<open>coder.opParams\<close> is not among the source files. The spec
  gives it the transport as a parameter and says that it "may need to resolve or
  register addresses through the transport". This codec does so once.
\<close>

definition resolving_env :: "string option \<Rightarrow> env" where
  "resolving_env response =
     (example_env response)
       \<lparr>coder_opParams :=
          (\<lambda>tys args rand dy. ([''resolve addresses''], Inr \<lparr>params = args, shortAddr = []\<rparr>))\<rparr>"

definition example_entry :: "string list \<Rightarrow> string list \<Rightarrow> string \<Rightarrow> abi_entry" where
  "example_entry ins outs mut =
     \<lparr>json_name = ''f'', json_inputs = ins, json_outputs = outs,
      json_stateMutability = Some mut, json_constant = None, json_payable = None\<rparr>"

definition example_binding :: "string list \<Rightarrow> string list \<Rightarrow> string \<Rightarrow> binding" where
  "example_binding ins outs mut =
     SolidityFunction (example_env None) 0 (example_entry ins outs mut)
       ''2S4kr7ZHEoyAqWvEehhDWxg3'' False"

text \<open>A state with no object, and one where the caller holds an object at address 0.\<close>

definition initial_state :: "binding \<Rightarrow> js_state" where
  "initial_state b = \<lparr>self = b, heap = (\<lambda>a. Map.empty), nextAddr = 0, trace = []\<rparr>"

definition caller_state :: "binding \<Rightarrow> obj \<Rightarrow> js_state" where
  "caller_state b options =
     \<lparr>self = b, heap = (\<lambda>a. Map.empty)(0 := options), nextAddr = 1, trace = []\<rparr>"

section \<open>Properties\<close>

subsection \<open>The frame, the payload, the decoding\<close>






lemma toPayload_Inr:
  assumes "toPayload E args s = (s', Inr p)"
  defines "q \<equiv> select_options (self s) args (nextAddr s)"
  defines "s2 \<equiv> set_prop q ''to'' (JStr (this_address (self s))) (snd (new_object s))"
  defines "dy \<equiv> (if hasOwnProperty s2 q ''dy'' then get_prop s2 q ''dy'' else JBool False)"
  shows "p = q \<and> validateArgs E (self s) args = Inr () \<and>
         (case utils_base58ToBytes E (this_address (self s)) of
            Inl e \<Rightarrow> False
          | Inr bytes \<Rightarrow>
              (case coder_opParams E (this_inputTypes (self s)) args
                      (utils_bytesToHex E (take 16 bytes)) dy of
                 (ops, Inl e) \<Rightarrow> False
               | (ops, Inr r) \<Rightarrow>
                   (case payload_data E (self s) (utils_bytesToHex E (take 16 bytes)) r of
                      Inl e \<Rightarrow> False
                    | Inr d \<Rightarrow> s' = set_prop q ''data'' (JStr d) (emit (map CodecDece ops) s2))))"
  using assms(1) unfolding q_def s2_def dy_def
  by (auto simp: toPayload_def new_object_def Let_def split: sum.splits prod.splits
           split del: if_split cong del: if_weak_cong)

lemma toPayload_success:
  assumes "toPayload E args s = (s', Inr p)"
  shows "\<exists>bytes dy ops r prefix enc.
           p = select_options (self s) args (nextAddr s) \<and>
           validateArgs E (self s) args = Inr () \<and>
           utils_base58ToBytes E (this_address (self s)) = Inr bytes \<and>
           coder_opParams E (this_inputTypes (self s)) args (utils_bytesToHex E (take 16 bytes)) dy
             = (ops, Inr r) \<and>
           coder_addressPrefix E (this_inputTypes (self s)) (params r)
             (utils_bytesToHex E (take 16 bytes)) = Inr prefix \<and>
           coder_encodeParams E (this_inputTypes (self s)) (params r) (shortAddr r) = Inr enc \<and>
           trace s' = trace s @ map CodecDece ops \<and>
           heap s' p ''to'' = Some (JStr (this_address (self s))) \<and>
           heap s' p ''data'' =
             Some (JStr (prefix @ take 8 (sha3 E (this_name (self s))) @ enc))"
proof -
  let ?q = "select_options (self s) args (nextAddr s)"
  let ?s2 = "set_prop ?q ''to'' (JStr (this_address (self s))) (snd (new_object s))"
  let ?dy = "(if hasOwnProperty ?s2 ?q ''dy'' then get_prop ?s2 ?q ''dy'' else JBool False)"
  note h = toPayload_Inr [OF assms]
  from h obtain bytes where
    b: "utils_base58ToBytes E (this_address (self s)) = Inr bytes"
    by (auto split: sum.splits)
  from h b obtain ops r where
    o: "coder_opParams E (this_inputTypes (self s)) args (utils_bytesToHex E (take 16 bytes)) ?dy
          = (ops, Inr r)"
    by (auto split: sum.splits prod.splits)
  from h b o obtain d where
    d: "payload_data E (self s) (utils_bytesToHex E (take 16 bytes)) r = Inr d" and
    s': "s' = set_prop ?q ''data'' (JStr d) (emit (map CodecDece ops) ?s2)"
    by (auto split: sum.splits)
  from d obtain prefix enc where
    pe: "coder_addressPrefix E (this_inputTypes (self s)) (params r)
           (utils_bytesToHex E (take 16 bytes)) = Inr prefix"
        "coder_encodeParams E (this_inputTypes (self s)) (params r) (shortAddr r) = Inr enc"
        "d = prefix @ take 8 (sha3 E (this_name (self s))) @ enc"
    by (auto simp: payload_data_def signature_def split: sum.splits)
  have p: "p = ?q" and v: "validateArgs E (self s) args = Inr ()"
    using h by simp_all
  have "trace s' = trace s @ map CodecDece ops"
    by (simp add: s' set_prop_def emit_def new_object_def)
  moreover have "heap s' p ''to'' = Some (JStr (this_address (self s)))"
    by (simp add: s' p set_prop_def emit_def new_object_def)
  moreover have "heap s' p ''data'' = Some (JStr d)"
    by (simp add: s' p set_prop_def emit_def new_object_def)
  ultimately show ?thesis
    using v b o pe p by blast
qed

lemma toPayload_trace:
  assumes "toPayload E args s = (s', r)"
  shows "\<exists>ops. trace s' = trace s @ map CodecDece ops"
proof -
  have "trace s' = trace s \<or> (\<exists>ops. trace s' = trace s @ map CodecDece ops)"
    using assms
    by (auto simp: toPayload_def new_object_def Let_def set_prop_def emit_def
             split: sum.splits prod.splits)
  then show ?thesis
    by (metis append_Nil2 list.simps(8))
qed


lemma toPayloadCall_success:
  assumes "toPayload E args s = (s1, Inr p)"
  shows "toPayloadCall E args k s = k p s1"
  using assms
  by (auto simp: toPayload_def toPayloadCall_def Let_def split: sum.splits prod.splits)

lemma toPayloadCall_failure:
  assumes "toPayload E args s = (s1, Inl e)"
  shows "\<exists>e'. toPayloadCall E args k s = (s1, Inl e')"
  using assms
  by (auto simp: toPayload_def toPayloadCall_def Let_def split: sum.splits prod.splits)






section \<open>The claims\<close>

subsection \<open>C7: the constant and payable flags\<close>

text \<open>
  C7. Construction sets the constant flag to the entry's own \<^verbatim>\<open>constant\<close> field when
  the entry has one, and otherwise to true exactly when the state-mutability tag
  is neither "nonpayable" nor "payable"; it sets the payable flag to the entry's
  own \<^verbatim>\<open>payable\<close> field when the entry has one, and otherwise to true exactly when
  the tag is "payable".
\<close>

theorem constructor_flags:
  "this_constant (SolidityFunction E d json addr v2) =
     (case json_constant json of
        Some c \<Rightarrow> c
      | None \<Rightarrow> json_stateMutability json \<noteq> Some ''nonpayable''
                \<and> json_stateMutability json \<noteq> Some ''payable'')
   \<and> this_payable (SolidityFunction E d json addr v2) =
     (case json_payable json of
        Some p \<Rightarrow> p
      | None \<Rightarrow> json_stateMutability json = Some ''payable'')"
  by (simp add: SolidityFunction_def Let_def split: option.splits)

subsection \<open>Running the methods\<close>

lemmas model_defs =
  call_def sendTransaction_def estimateGas_def getData_def request_def execute_def
  extractCallback_def extractDefaultBlock_def last_arg_def
  toPayload_def toPayloadCall_def new_object_def select_options_def validateArgs_def
  set_prop_def get_prop_def hasOwnProperty_def emit_def payload_data_def signature_def
  unpackOutput_def unpack_sync_def unpack_deliver_def invoke_callback_def falsy_def
  is_revert_def throw_reason_def decode_error_def single_or_all_def result_toString_def
  transport_reply_def Let_def

lemmas example_defs =
  example_env_def resolving_env_def example_entry_def example_binding_def
  initial_state_def caller_state_def revert_output_def SolidityFunction_def hex_char_def

subsection \<open>C8: the number of arguments\<close>

text \<open>
  C8. Let \<open>n\<close> be the number of arguments left after removing those that are
  mappings and neither arrays nor big numbers. If \<open>n\<close> is the number of declared
  input types, \<^verbatim>\<open>validateArgs\<close> returns. If not, it throws the arity error, and so do
  \<^verbatim>\<open>toPayload\<close> and \<^verbatim>\<open>toPayloadCall\<close>, at once: the continuation is not called,
  nothing has reached the transport or the codec (the trace is as before) and no
  object that existed is written to.
\<close>

theorem arity_validation:
  assumes "n = length (filter (\<lambda>a. \<not> (isObject a \<and> \<not> isArray a \<and> \<not> isBigNumber a)) args)"
  shows "(n = length (this_inputTypes (self s)) \<longrightarrow> validateArgs E (self s) args = Inr ()) \<and>
         (n \<noteq> length (this_inputTypes (self s)) \<longrightarrow>
            validateArgs E (self s) args = Inl (errors_InvalidNumberOfSolidityArgs E) \<and>
            (\<exists>s1. toPayload E args s = (s1, Inl (errors_InvalidNumberOfSolidityArgs E)) \<and>
                  toPayloadCall E args k s = (s1, Inl (errors_InvalidNumberOfSolidityArgs E)) \<and>
                  trace s1 = trace s \<and> frame [] s s1))"
proof (intro conjI impI)
  assume "n = length (this_inputTypes (self s))"
  with assms show "validateArgs E (self s) args = Inr ()"
    by (simp add: validateArgs_def)
next
  assume "n \<noteq> length (this_inputTypes (self s))"
  with assms show "validateArgs E (self s) args = Inl (errors_InvalidNumberOfSolidityArgs E)"
    by (simp add: validateArgs_def)
next
  assume ne: "n \<noteq> length (this_inputTypes (self s))"
  show "\<exists>s1. toPayload E args s = (s1, Inl (errors_InvalidNumberOfSolidityArgs E)) \<and>
             toPayloadCall E args k s = (s1, Inl (errors_InvalidNumberOfSolidityArgs E)) \<and>
             trace s1 = trace s \<and> frame [] s s1"
  proof -
    have v: "validateArgs E (self s) args = Inl (errors_InvalidNumberOfSolidityArgs E)"
      using assms ne by (simp add: validateArgs_def)
    let ?s1 = "snd (new_object s)"
  have "toPayload E args s = (?s1, Inl (errors_InvalidNumberOfSolidityArgs E))"
    using v by (simp add: toPayload_def new_object_def Let_def)
  moreover have "toPayloadCall E args k s = (?s1, Inl (errors_InvalidNumberOfSolidityArgs E))"
    using v by (simp add: toPayloadCall_def new_object_def Let_def)
  moreover have "trace ?s1 = trace s" "frame [] s ?s1"
    by (simp_all add: new_object_def frame_def)
  ultimately show ?thesis
    by blast
  qed
qed

theorem arity_validation_witness:
  "validateArgs (example_env None)
     (self (initial_state (example_binding [''uint256'', ''uint256''] [] ''nonpayable'')))
     [JNum 1]
   = Inl (Error ''Invalid number of arguments to Solidity function'')
   \<and> snd (run (example_env None) Call [JNum 1]
            (initial_state (example_binding [''uint256'', ''uint256''] [] ''nonpayable'')))
     = Inl (Error ''Invalid number of arguments to Solidity function'')
   \<and> trace (fst (run (example_env None) Call [JNum 1]
            (initial_state (example_binding [''uint256'', ''uint256''] [] ''nonpayable''))))
     = []"
proof -
  let ?s = "initial_state (example_binding [''uint256'', ''uint256''] [] ''nonpayable'')"
  have h: "1 = length (filter (\<lambda>a. \<not> (isObject a \<and> \<not> isArray a \<and> \<not> isBigNumber a)) [JNum 1])"
    by simp
  have ne: "1 \<noteq> length (this_inputTypes (self ?s))"
    by (simp add: example_defs)
  have r: "snd (run (example_env None) Call [JNum 1] ?s)
             = Inl (Error ''Invalid number of arguments to Solidity function'')"
    "trace (fst (run (example_env None) Call [JNum 1] ?s)) = []"
    by (simp_all add: model_defs example_defs)
  from arity_validation [OF h, of ?s "example_env None" "\<lambda>p s. (s, Inr ())"] ne r
  show ?thesis by (simp add: example_defs)
qed

subsection \<open>C5: an output whose short addresses cannot be extracted\<close>

text \<open>
  C5, as amended. For an output that is not falsy, let \<open>output\<close> be what is left
  after its first two characters are cut off, whatever they are (an output of one
  character is left whole), and let \<^verbatim>\<open>coder.decodeShortAddress\<close> throw \<open>e\<close> on it.
  If \<open>output\<close> begins with \<^verbatim>\<open>08c379a0\<close>, \<^verbatim>\<open>unpackOutput\<close> decodes the rest, from
  character 8 on, as one \<^verbatim>\<open>string\<close> parameter and throws an error whose message
  holds the decoded reason and \<open>output\<close> (or the codec's own exception, when that
  decoding throws). Otherwise it throws an error whose message holds \<open>e\<close> and
  \<open>output\<close>, the cut output and not the one it was given. The state is as before.
\<close>

theorem revert_or_decode_error:
  assumes "\<not> falsy (Some raw)"
    and "output = (if length raw \<ge> 2 then drop 2 raw else raw)"
    and "coder_decodeShortAddress E (this_outputTypes (self s)) output = Inl e"
  shows "(take 8 output = ''08c379a0'' \<longrightarrow>
            (\<forall>result. coder_decodeParams E [''string''] (drop 8 output) None = Inr result \<longrightarrow>
               unpackOutput E (Some raw) callback s =
                 (s, Inl (Error (''output invalid, reason = '' @ result_toString E result
                                   @ [CHR 0x0A] @ ''output = '' @ output)))) \<and>
            (\<forall>e'. coder_decodeParams E [''string''] (drop 8 output) None = Inl e' \<longrightarrow>
               unpackOutput E (Some raw) callback s = (s, Inl e'))) \<and>
         (take 8 output \<noteq> ''08c379a0'' \<longrightarrow>
            unpackOutput E (Some raw) callback s =
              (s, Inl (Error (''unpackOutput error = '' @ exn_toString e
                                @ [CHR 0x0A] @ ''output = '' @ output))))"
proof -
  have r: "is_revert output \<longleftrightarrow> take 8 output = ''08c379a0''"
  proof
    assume "is_revert output" then show "take 8 output = ''08c379a0''"
      by (simp add: is_revert_def)
  next
    assume t: "take 8 output = ''08c379a0''"
    have "length (take 8 output) = 8" by (simp add: t)
    then have "8 \<le> length output" by simp
    with t show "is_revert output" by (simp add: is_revert_def)
  qed
  have u: "unpackOutput E (Some raw) callback s =
             (if is_revert output
              then (s, Inl (throw_reason E ''output invalid, reason = '' output))
              else (s, Inl (decode_error e output)))"
    using assms by (simp add: unpackOutput_def Let_def)
  show ?thesis
    by (simp add: u r throw_reason_def decode_error_def)
qed

theorem revert_or_decode_error_witness:
  "unpackOutput (example_env None) (Some revert_output) (Some 7)
     (initial_state (example_binding [] [''uint256''] ''view''))
   = (initial_state (example_binding [] [''uint256''] ''view''),
      Inl (Error (''output invalid, reason = execution failed'' @ [CHR 0x0A] @ ''output = ''
                   @ drop 2 revert_output)))
   \<and> unpackOutput (example_env None) (Some ''0x1234'') (Some 7)
     (initial_state (example_binding [] [''uint256''] ''view''))
   = (initial_state (example_binding [] [''uint256''] ''view''),
      Inl (Error (''unpackOutput error = Error: invalid output'' @ [CHR 0x0A] @ ''output = 1234'')))"
proof -
  let ?E = "example_env None"
  let ?s = "initial_state (example_binding [] [''uint256''] ''view'')"
  have a: "\<not> falsy (Some revert_output)" "\<not> falsy (Some ''0x1234'')"
    by (simp_all add: falsy_def revert_output_def)
  have b: "drop 2 revert_output = (if length revert_output \<ge> 2 then drop 2 revert_output else revert_output)"
    "''1234'' = (if length ''0x1234'' \<ge> 2 then drop 2 ''0x1234'' else ''0x1234'')"
    by (simp_all add: revert_output_def)
  have c: "coder_decodeShortAddress ?E (this_outputTypes (self ?s)) (drop 2 revert_output)
             = Inl (Error ''invalid output'')"
    "coder_decodeShortAddress ?E (this_outputTypes (self ?s)) ''1234''
             = Inl (Error ''invalid output'')"
    by (simp_all add: example_defs)
  have d: "coder_decodeParams ?E [''string''] (drop 8 (drop 2 revert_output)) None
             = Inr [DStr ''execution failed'']"
    by (simp add: example_defs)
  have t: "take 8 (drop 2 revert_output) = ''08c379a0''" "take 8 ''1234'' \<noteq> ''08c379a0''"
    by (simp_all add: revert_output_def)
  from revert_or_decode_error [OF a(1) b(1) c(1), of "Some 7"] t(1) d
    revert_or_decode_error [OF a(2) b(2) c(2), of "Some 7"] t(2)
  show ?thesis
    by (simp add: result_toString_def)
qed

text \<open>
  The claim as stated fails on an output that comes without the \<^verbatim>\<open>0x\<close> prefix: it
  begins with \<^verbatim>\<open>08c379a0\<close>, the extraction throws, and what \<^verbatim>\<open>unpackOutput\<close> throws is
  the generic error, on an output that has lost the first two characters of the
  selector.
\<close>

theorem unprefixed_revert_generic_error:
  "take 8 (drop 2 revert_output) = ''08c379a0''
   \<and> coder_decodeShortAddress (example_env None) [''uint256''] (drop 4 revert_output)
     = Inl (Error ''invalid output'')
   \<and> unpackOutput (example_env None) (Some (drop 2 revert_output)) (Some 7)
       (initial_state (example_binding [] [''uint256''] ''view''))
     = (initial_state (example_binding [] [''uint256''] ''view''),
        Inl (Error (''unpackOutput error = Error: invalid output'' @ [CHR 0x0A] @ ''output = ''
                     @ drop 4 revert_output)))"
  by (simp add: model_defs example_defs)

subsection \<open>C10: a falsy output\<close>

text \<open>
  C10. On a falsy output \<^verbatim>\<open>unpackOutput\<close> returns \<^verbatim>\<open>undefined\<close> at once, with or
  without a callback, and the state is as before: the callback is not invoked.
  So a \<^verbatim>\<open>call\<close> with a callback, on a transport that answers with a falsy output,
  ends without any invocation of the callback.
\<close>

theorem falsy_output_returns:
  assumes "falsy output"
  shows "unpackOutput E output callback s = (s, Inr Undefined) \<and>
         (\<forall>arguments c args1.
            extractCallback (filter (\<lambda>a. a \<noteq> JUndefined) arguments) = (Some c, args1) \<and>
            (\<forall>p blk. dece_call E p blk = Inr output) \<longrightarrow>
            (\<exists>es. trace (fst (call E arguments s)) = trace s @ es \<and> \<not> list_ex is_invocation es))"
proof -
  have u: "\<And>cb t. unpackOutput E output cb t = (t, Inr Undefined)"
    using assms by (simp add: unpackOutput_def)
  have "\<exists>es. trace (fst (call E arguments s)) = trace s @ es \<and> \<not> list_ex is_invocation es"
    if x: "extractCallback (filter (\<lambda>a. a \<noteq> JUndefined) arguments) = (Some c, args1)"
      and d: "\<forall>p blk. dece_call E p blk = Inr output"
    for arguments c args1
  proof -
    obtain blk args2 where b: "extractDefaultBlock E (self s) args1 = (blk, args2)"
      by (cases "extractDefaultBlock E (self s) args1")
    let ?k = "\<lambda>payload s1.
                let s2 = emit [DeceCall payload blk] s1
                in case dece_call E (heap s2 payload) blk of
                     Inl error \<Rightarrow> invoke_callback (Some c) [CErr error, CNull] s2
                   | Inr output \<Rightarrow>
                       (case unpackOutput E output (Some c) s2 of
                          (s3, Inl e) \<Rightarrow> (s3, Inr ())
                        | (s3, Inr v) \<Rightarrow> (s3, Inr ()))"
    have c: "call E arguments s =
               (case toPayloadCall E args2 ?k s of
                  (s', Inl e) \<Rightarrow> (s', Inl e)
                | (s', Inr u) \<Rightarrow> (s', Inr Undefined))"
      by (simp add: call_def x b)
    obtain s1 y where t: "toPayload E args2 s = (s1, y)"
      by (cases "toPayload E args2 s")
    from toPayload_trace [OF t] obtain ops where o: "trace s1 = trace s @ map CodecDece ops"
      by blast
    have n: "\<not> list_ex is_invocation (map CodecDece ops)"
      by (induction ops) simp_all
    show ?thesis
    proof (cases y)
      case (Inl e)
      with t obtain e' where "toPayloadCall E args2 ?k s = (s1, Inl e')"
        using toPayloadCall_failure by blast
      then have "fst (call E arguments s) = s1"
        by (simp add: c)
      with o n show ?thesis by auto
    next
      case (Inr p)
      with t have "toPayloadCall E args2 ?k s = ?k p s1"
        using toPayloadCall_success by blast
      then have "fst (call E arguments s) = emit [DeceCall p blk] s1"
        by (simp add: c d u Let_def)
      then have "trace (fst (call E arguments s)) = trace s @ (map CodecDece ops @ [DeceCall p blk])"
        by (simp add: emit_def o)
      moreover have "\<not> list_ex is_invocation (map CodecDece ops @ [DeceCall p blk])"
        using n by simp
      ultimately show ?thesis by blast
    qed
  qed
  with u show ?thesis by blast
qed

theorem falsy_output_returns_witness:
  "unpackOutput (example_env (Some [])) (Some []) (Some 7)
     (initial_state (example_binding [] [''uint256''] ''view''))
   = (initial_state (example_binding [] [''uint256''] ''view''), Inr Undefined)
   \<and> trace (fst (call (example_env (Some [])) [JFunction 7]
                   (initial_state (example_binding [] [''uint256''] ''view''))))
     = [DeceCall 0 JUndefined]"
proof -
  have f: "falsy (Some [])"
    by (simp add: falsy_def)
  have t: "trace (fst (call (example_env (Some [])) [JFunction 7]
                   (initial_state (example_binding [] [''uint256''] ''view''))))
     = [DeceCall 0 JUndefined]"
    by (simp add: model_defs example_defs)
  from falsy_output_returns [OF f, of "example_env (Some [])" "Some 7"
      "initial_state (example_binding [] [''uint256''] ''view'')"] t
  show ?thesis
    by simp
qed

subsection \<open>C6: the payload\<close>

text \<open>
  C6. When \<^verbatim>\<open>toPayload\<close> returns the options object \<open>p\<close>: the address decoded from
  base 58 to \<open>bytes\<close>; the salt handed to \<^verbatim>\<open>opParams\<close> and \<^verbatim>\<open>addressPrefix\<close> is the hex
  rendering of the first 16 of them; \<open>p.to\<close> is the contract address; \<open>p.data\<close> is
  the prefix, then the first 8 characters of the hash of the name (the
  \<^verbatim>\<open>signature\<close>), then the encoded parameters. \<^verbatim>\<open>toPayloadCall\<close> hands the same
  object in the same state to its continuation.
\<close>

theorem payload_contents:
  assumes "toPayload E args s = (s', Inr p)"
  shows "\<exists>bytes dy ops r prefix enc.
           utils_base58ToBytes E (this_address (self s)) = Inr bytes \<and>
           coder_opParams E (this_inputTypes (self s)) args (utils_bytesToHex E (take 16 bytes)) dy
             = (ops, Inr r) \<and>
           coder_addressPrefix E (this_inputTypes (self s)) (params r)
             (utils_bytesToHex E (take 16 bytes)) = Inr prefix \<and>
           coder_encodeParams E (this_inputTypes (self s)) (params r) (shortAddr r) = Inr enc \<and>
           heap s' p ''to'' = Some (JStr (this_address (self s))) \<and>
           heap s' p ''data'' =
             Some (JStr (prefix @ take 8 (sha3 E (this_name (self s))) @ enc)) \<and>
           signature E (self s) = take 8 (sha3 E (this_name (self s))) \<and>
           (\<forall>k. toPayloadCall E args k s = k p s')"
proof -
  from toPayload_success [OF assms] obtain bytes dy ops r prefix enc where
    "utils_base58ToBytes E (this_address (self s)) = Inr bytes"
    "coder_opParams E (this_inputTypes (self s)) args (utils_bytesToHex E (take 16 bytes)) dy
       = (ops, Inr r)"
    "coder_addressPrefix E (this_inputTypes (self s)) (params r)
       (utils_bytesToHex E (take 16 bytes)) = Inr prefix"
    "coder_encodeParams E (this_inputTypes (self s)) (params r) (shortAddr r) = Inr enc"
    "heap s' p ''to'' = Some (JStr (this_address (self s)))"
    "heap s' p ''data'' = Some (JStr (prefix @ take 8 (sha3 E (this_name (self s))) @ enc))"
    by blast
  moreover have "\<forall>k. toPayloadCall E args k s = k p s'"
    using toPayloadCall_success [OF assms] by simp
  moreover have "signature E (self s) = take 8 (sha3 E (this_name (self s)))"
    by (simp add: signature_def)
  ultimately show ?thesis by blast
qed

theorem payload_contents_witness:
  "snd (toPayload (example_env None) [JNum 5]
          (initial_state (example_binding [''uint256''] [] ''nonpayable''))) = Inr 0
   \<and> heap (fst (toPayload (example_env None) [JNum 5]
          (initial_state (example_binding [''uint256''] [] ''nonpayable'')))) 0 ''to''
       = Some (JStr ''2S4kr7ZHEoyAqWvEehhDWxg3'')
   \<and> heap (fst (toPayload (example_env None) [JNum 5]
          (initial_state (example_binding [''uint256''] [] ''nonpayable'')))) 0 ''data''
       = Some (JStr ''3253346b72375a48456f794171577645a9059cbb'')"
proof -
  let ?E = "example_env None"
  let ?s = "initial_state (example_binding [''uint256''] [] ''nonpayable'')"
  have a2: "snd (toPayload ?E [JNum 5] ?s) = Inr 0"
    by (simp add: model_defs example_defs)
  then have a: "toPayload ?E [JNum 5] ?s = (fst (toPayload ?E [JNum 5] ?s), Inr 0)"
    by (metis prod.collapse)
  have b: "utils_base58ToBytes ?E (this_address (self ?s)) = Inr (map of_char ''2S4kr7ZHEoyAqWvEehhDWxg3'')"
    "sha3 ?E (this_name (self ?s)) = ''a9059cbb2ab09eb219583f4a59a5d0623ade346d962bcd4e46b11da047c9049b''"
    "this_address (self ?s) = ''2S4kr7ZHEoyAqWvEehhDWxg3''"
    by (simp_all add: example_defs)
  from payload_contents [OF a] obtain bytes dy ops r prefix enc where
    h: "utils_base58ToBytes ?E (this_address (self ?s)) = Inr bytes"
      "coder_opParams ?E (this_inputTypes (self ?s)) [JNum 5] (utils_bytesToHex ?E (take 16 bytes)) dy
         = (ops, Inr r)"
      "coder_addressPrefix ?E (this_inputTypes (self ?s)) (params r)
         (utils_bytesToHex ?E (take 16 bytes)) = Inr prefix"
      "coder_encodeParams ?E (this_inputTypes (self ?s)) (params r) (shortAddr r) = Inr enc"
      "heap (fst (toPayload ?E [JNum 5] ?s)) 0 ''to'' = Some (JStr (this_address (self ?s)))"
      "heap (fst (toPayload ?E [JNum 5] ?s)) 0 ''data'' =
         Some (JStr (prefix @ take 8 (sha3 ?E (this_name (self ?s))) @ enc))"
    by blast
  from h(1) b(1) have bytes: "bytes = map of_char ''2S4kr7ZHEoyAqWvEehhDWxg3''"
    by simp
  from h(3) have prefix: "prefix = ''3253346b72375a48456f794171577645''"
    by (simp add: bytes example_env_def hex_char_def)
  from h(4) have enc: "enc = []"
    by (simp add: example_env_def)
  show ?thesis
    using a2 h(5) h(6) by (simp add: prefix enc b)
qed

subsection \<open>What the operations leave alone\<close>












subsection \<open>C4: the binding, the argument list and the options object\<close>




subsection \<open>C2: a value sent to a function that is not payable\<close>




subsection \<open>C3: getData and the transport\<close>

lemma no_direct_CodecDece: "\<not> list_ex direct_transport (map CodecDece ops)"
  by (induction ops) simp_all

text \<open>
  C3, as amended. \<^verbatim>\<open>getData\<close> invokes none of the transport's \<^verbatim>\<open>call\<close>,
  \<^verbatim>\<open>sendTransaction\<close>, \<^verbatim>\<open>estimateGas\<close> and \<^verbatim>\<open>getFullAddress\<close>: what it adds to the
  trace are the transport operations the codec runs inside \<^verbatim>\<open>opParams\<close>, to which
  the handle is passed, and the invocation of the callback. Without a callback it
  returns the \<^verbatim>\<open>data\<close> field of the payload that \<^verbatim>\<open>toPayload\<close> built, and nothing else
  of it.
\<close>

theorem getData_transport:
  assumes "getData E arguments s = (s', r)"
  shows "(\<exists>es. trace s' = trace s @ es \<and> \<not> list_ex direct_transport es) \<and>
         (\<forall>v. r = Inr v \<and> fst (extractCallback arguments) = None \<longrightarrow>
            (\<exists>p d. toPayload E (snd (extractCallback arguments)) s = (s', Inr p) \<and>
                   heap s' p ''data'' = Some (JStr d) \<and> v = Raw (JStr d))) \<and>
         (\<forall>v c. r = Inr v \<and> fst (extractCallback arguments) = Some c \<longrightarrow>
            (\<exists>s1 p d. toPayload E (snd (extractCallback arguments)) s = (s1, Inr p) \<and>
                   heap s1 p ''data'' = Some (JStr d) \<and>
                   s' = emit [Invoked c [CJs (JStr d)]] s1))"
proof -
  obtain cb args where x: "extractCallback arguments = (cb, args)"
    by fastforce
  obtain s1 y where t: "toPayload E args s = (s1, y)"
    by fastforce
  from toPayload_trace [OF t] obtain ops where o: "trace s1 = trace s @ map CodecDece ops"
    by blast
  have tr: "\<exists>es. trace s' = trace s @ es \<and> \<not> list_ex direct_transport es"
  proof (cases cb)
    case None
    then have "s' = s1"
      using assms by (cases y) (simp_all add: getData_def x t)
    with o no_direct_CodecDece show ?thesis by blast
  next
    case (Some c)
    let ?k = "\<lambda>result s1. invoke_callback (Some c) [CJs (get_prop s1 result ''data'')] s1"
    have g: "(case toPayloadCall E args ?k s of
                (s', Inl e) \<Rightarrow> (s', Inl e)
              | (s', Inr u) \<Rightarrow> (s', Inr Undefined)) = (s', r)"
      using assms by (simp add: getData_def x [unfolded Some])
    show ?thesis
    proof (cases y)
      case (Inl e)
      with t obtain e' where "toPayloadCall E args ?k s = (s1, Inl e')"
        using toPayloadCall_failure by blast
      with g have "s' = s1" by simp
      with o no_direct_CodecDece show ?thesis by blast
    next
      case (Inr p)
      with t have "toPayloadCall E args ?k s = ?k p s1"
        using toPayloadCall_success by blast
      with g have "s' = emit [Invoked c [CJs (get_prop s1 p ''data'')]] s1"
        by (simp add: invoke_callback_def)
      then have "trace s' = trace s @ (map CodecDece ops @ [Invoked c [CJs (get_prop s1 p ''data'')]])"
        by (simp add: emit_def o)
      moreover have "\<not> list_ex direct_transport
                        (map CodecDece ops @ [Invoked c [CJs (get_prop s1 p ''data'')]])"
        using no_direct_CodecDece by simp
      ultimately show ?thesis by blast
    qed
  qed
  have "\<exists>p d. toPayload E args s = (s', Inr p) \<and> heap s' p ''data'' = Some (JStr d) \<and> v = Raw (JStr d)"
    if "r = Inr v" "cb = None" for v
  proof -
    from that assms obtain p where p: "y = Inr p" "s' = s1" "v = Raw (get_prop s1 p ''data'')"
      by (cases y) (auto simp: getData_def x t)
    from toPayload_success [OF t [unfolded p(1)]] obtain d where
      "heap s1 p ''data'' = Some (JStr d)"
      by blast
    with p t show ?thesis
      by (simp add: get_prop_def)
  qed
  moreover have "\<exists>s1 p d. toPayload E args s = (s1, Inr p) \<and> heap s1 p ''data'' = Some (JStr d) \<and>
                  s' = emit [Invoked c [CJs (JStr d)]] s1"
    if "r = Inr v" "cb = Some c" for v c
  proof -
    let ?k = "\<lambda>result s1. invoke_callback (Some c) [CJs (get_prop s1 result ''data'')] s1"
    have g: "(case toPayloadCall E args ?k s of
                (s', Inl e) \<Rightarrow> (s', Inl e)
              | (s', Inr u) \<Rightarrow> (s', Inr Undefined)) = (s', r)"
      using assms by (simp add: getData_def x [unfolded that(2)])
    have "\<exists>p. y = Inr p"
    proof (cases y)
      case (Inl e)
      with t obtain e' where "toPayloadCall E args ?k s = (s1, Inl e')"
        using toPayloadCall_failure by blast
      with g that(1) show ?thesis by simp
    next
      case (Inr p)
      then show ?thesis by blast
    qed
    then obtain p where p: "y = Inr p" by blast
    with t have "toPayloadCall E args ?k s = ?k p s1"
      using toPayloadCall_success by blast
    with g have s': "s' = emit [Invoked c [CJs (get_prop s1 p ''data'')]] s1"
      by (simp add: invoke_callback_def)
    from toPayload_success [OF t [unfolded p]] obtain d where
      "heap s1 p ''data'' = Some (JStr d)"
      by blast
    with s' t p show ?thesis
      by (simp add: get_prop_def)
  qed
  ultimately show ?thesis
    using tr by (simp add: x)
qed

theorem getData_transport_witness:
  "trace (fst (getData (example_env None) [JNum 5]
                 (initial_state (example_binding [''uint256''] [] ''nonpayable'')))) = []
   \<and> snd (getData (example_env None) [JNum 5]
            (initial_state (example_binding [''uint256''] [] ''nonpayable'')))
     = Inr (Raw (JStr ''3253346b72375a48456f794171577645a9059cbb''))"
proof -
  let ?s = "initial_state (example_binding [''uint256''] [] ''nonpayable'')"
  have r: "getData (example_env None) [JNum 5] ?s
             = (fst (getData (example_env None) [JNum 5] ?s),
                snd (getData (example_env None) [JNum 5] ?s))"
    by simp
  have e: "snd (getData (example_env None) [JNum 5] ?s)
             = Inr (Raw (JStr ''3253346b72375a48456f794171577645a9059cbb''))"
    "trace (fst (getData (example_env None) [JNum 5] ?s)) = []"
    by (simp_all add: model_defs example_defs)
  from getData_transport [OF r] e
  show ?thesis
    by simp
qed

text \<open>
  The claim as stated fails with a codec that uses the handle it is given:
  \<^verbatim>\<open>getData\<close> then runs an operation of the transport.
\<close>

theorem getData_reaches_transport:
  "trace (fst (getData (resolving_env None) [JNum 5]
                 (initial_state (example_binding [''uint256''] [] ''nonpayable''))))
     = [CodecDece ''resolve addresses'']
   \<and> snd (getData (resolving_env None) [JNum 5]
            (initial_state (example_binding [''uint256''] [] ''nonpayable'')))
     = Inr (Raw (JStr ''3253346b72375a48456f794171577645a9059cbb''))"
  by (simp add: model_defs example_defs)

subsection \<open>C1: an exception of the decoding in the callback form of call\<close>

lemma unpackOutput_thrown_trace:
  assumes "unpackOutput E out (Some c) s = (s', Inl e)"
  shows "\<exists>es. trace s' = trace s @ es \<and> \<not> list_ex is_invocation es"
proof -
  have "s' = s \<or> (\<exists>sa. s' = emit [DeceGetFullAddress sa] s)"
    using assms
    by (auto simp: unpackOutput_def unpack_deliver_def invoke_callback_def Let_def
          split: sum.splits if_splits option.splits)
  then show ?thesis
  proof
    assume "s' = s"
    then have "trace s' = trace s @ [] \<and> \<not> list_ex is_invocation []" by simp
    then show ?thesis by blast
  next
    assume "\<exists>sa. s' = emit [DeceGetFullAddress sa] s"
    then obtain sa where "s' = emit [DeceGetFullAddress sa] s" by blast
    then have "trace s' = trace s @ [DeceGetFullAddress sa]
                 \<and> \<not> list_ex is_invocation [DeceGetFullAddress sa]"
      by (simp add: emit_def)
    then show ?thesis by blast
  qed
qed

text \<open>
  C1. What the code does instead of what the claim says: in the callback form of
  \<^verbatim>\<open>call\<close>, when the transport delivers an output and \<^verbatim>\<open>unpackOutput\<close> throws \<open>e\<close> on
  it, \<^verbatim>\<open>call\<close> returns \<^verbatim>\<open>undefined\<close> and no invocation of the callback follows the
  transport's \<^verbatim>\<open>call\<close>: \<^verbatim>\<open>catch (e) { error = e; }\<close> is the end of \<open>e\<close>.
\<close>

theorem async_failure_dropped:
  assumes "extractCallback (filter (\<lambda>a. a \<noteq> JUndefined) arguments) = (Some c, args1)"
    and "extractDefaultBlock E (self s) args1 = (blk, args2)"
    and "toPayload E args2 s = (s1, Inr p)"
    and "dece_call E (heap (emit [DeceCall p blk] s1) p) blk = Inr output"
    and "unpackOutput E output (Some c) (emit [DeceCall p blk] s1) = (s', Inl e)"
  shows "call E arguments s = (s', Inr Undefined) \<and>
         (\<exists>es. trace s' = trace s1 @ DeceCall p blk # es \<and> \<not> list_ex is_invocation es)"
proof -
  have "call E arguments s = (s', Inr Undefined)"
    by (simp add: call_def assms(1,2,4,5) toPayloadCall_success [OF assms(3)] Let_def)
  moreover from unpackOutput_thrown_trace [OF assms(5)]
  have "\<exists>es. trace s' = trace s1 @ DeceCall p blk # es \<and> \<not> list_ex is_invocation es"
    by (simp add: emit_def)
  ultimately show ?thesis by blast
qed

text \<open>
  On the output of a reverted call the callback is never invoked, while the form
  without a callback throws the reason.
\<close>

theorem async_failure_dropped_witness:
  "call (example_env (Some revert_output)) [JFunction 7]
          (initial_state (example_binding [] [''uint256''] ''view''))
     = (emit [DeceCall 0 JUndefined]
          (fst (toPayload (example_env (Some revert_output)) []
                  (initial_state (example_binding [] [''uint256''] ''view'')))),
        Inr Undefined)
   \<and> trace (fst (call (example_env (Some revert_output)) [JFunction 7]
          (initial_state (example_binding [] [''uint256''] ''view'')))) = [DeceCall 0 JUndefined]
   \<and> snd (call (example_env (Some revert_output)) []
          (initial_state (example_binding [] [''uint256''] ''view'')))
     = Inl (Error (''output invalid, reason = execution failed'' @ [CHR 0x0A] @ ''output = ''
                    @ drop 2 revert_output))"
proof -
  let ?E = "example_env (Some revert_output)"
  let ?s = "initial_state (example_binding [] [''uint256''] ''view'')"
  let ?s1 = "fst (toPayload ?E [] ?s)"
  let ?s2 = "emit [DeceCall 0 JUndefined] ?s1"
  have x: "extractCallback (filter (\<lambda>a. a \<noteq> JUndefined) [JFunction 7]) = (Some 7, [])"
    by (simp add: extractCallback_def last_arg_def)
  have b: "extractDefaultBlock ?E (self ?s) [] = (JUndefined, [])"
    by (simp add: extractDefaultBlock_def)
  have "snd (toPayload ?E [] ?s) = Inr 0"
    by (simp add: model_defs example_defs)
  then have t: "toPayload ?E [] ?s = (?s1, Inr 0)"
    by (metis prod.collapse)
  have d: "dece_call ?E (heap ?s2 0) JUndefined = Inr (Some revert_output)"
    by (simp add: example_env_def)
  have o: "self ?s1 = example_binding [] [''uint256''] ''view''"
    by (simp add: model_defs example_defs)
  have u: "unpackOutput ?E (Some revert_output) (Some 7) ?s2
             = (?s2, Inl (Error (''output invalid, reason = execution failed'' @ [CHR 0x0A]
                                   @ ''output = '' @ drop 2 revert_output)))"
    by (simp add: unpackOutput_def falsy_def is_revert_def throw_reason_def result_toString_def
          emit_def o example_defs Let_def)
  have tr: "trace ?s1 = []"
    by (simp add: model_defs example_defs)
  have sy: "snd (call ?E [] ?s)
     = Inl (Error (''output invalid, reason = execution failed'' @ [CHR 0x0A] @ ''output = ''
                    @ drop 2 revert_output))"
    by (simp add: model_defs example_defs)
  from async_failure_dropped [OF x b t d u] tr sy
  show ?thesis
    by (simp add: emit_def)
qed

subsection \<open>C9: the two forms of call on the same output\<close>

text \<open>
  C9. What the code does instead of what the claim says: for a binding with no
  declared output and a transport that answers \<^verbatim>\<open>"0x"\<close>, \<^verbatim>\<open>call\<close> without a callback
  throws a TypeError, since \<^verbatim>\<open>unpackOutput\<close> goes on to the statement that calls
  the callback it was not given; with a callback, the callback receives
  \<open>(null, [])\<close>.
\<close>

theorem sync_async_differ:
  "snd (call (example_env (Some ''0x'')) []
          (initial_state (example_binding [] [] ''view'')))
     = Inl (TypeError ''callback is not a function'')
   \<and> trace (fst (call (example_env (Some ''0x'')) [JFunction 7]
          (initial_state (example_binding [] [] ''view''))))
     = [DeceCall 0 JUndefined, Invoked 7 [CNull, CDecoded (DArr [])]]"
  by (simp add: model_defs example_defs)

end
